theory Spec2Isabelle
  imports Main
begin

section \<open>The CSS selector builder of 05-objects-tasks.js\<close>

subsection \<open>Values, errors and completions\<close>

text \<open>
  A JavaScript call either returns a value or throws. Since the builder is mutated in
  place, a call is modelled as a function from the object before the call to a
  completion paired with the object after the call: a throw leaves the object as it was
  at the moment of the throw, and that object is part of the result.

  \<open>Error msg\<close> is \<open>new Error(msg)\<close>. \<open>TypeError\<close> is what JavaScript throws when a
  property is read from something that is not an object; the model raises it for a
  reference that addresses no object of the store.
  \<open>SyntaxError\<close> is what \<open>JSON.parse\<close> throws on a text that is not JSON.
\<close>

datatype error = Error string | TypeError | SyntaxError

datatype 'a completion = Normal 'a | Throw error

text \<open>
  \<open>Array.prototype.indexOf\<close>: the first index holding the element, \<open>-1\<close> when there is
  none.
\<close>

fun indexOf_from :: "int \<Rightarrow> 'a list \<Rightarrow> 'a \<Rightarrow> int" where
  "indexOf_from i [] x = -1"
| "indexOf_from i (y # ys) x = (if y = x then i else indexOf_from (i + 1) ys x)"

definition indexOf :: "'a list \<Rightarrow> 'a \<Rightarrow> int" where
  "indexOf xs x = indexOf_from 0 xs x"

subsection \<open>The tables\<close>

definition order :: "string list" where
  "order = [''el'', ''id'', ''class'', ''attr'', ''pseudoClass'', ''pseudoEl'']"

definition oneTimeSelectors :: "string list" where
  "oneTimeSelectors = [''el'', ''id'', ''pseudoEl'']"

definition error1 :: string where
  "error1 = ''Element, id and pseudo-element should not occur more then one time inside the selector''"

definition error2 :: string where
  "error2 = ''Selector parts should be arranged in the following order: element, id, class, attribute, pseudo-class, pseudo-element''"

subsection \<open>class SelectorBuilder\<close>

record SelectorBuilder =
  usedSelectors :: "string list"
  str :: string

definition constructor :: SelectorBuilder where
  "constructor = \<lparr>usedSelectors = [], str = ''''\<rparr>"

text \<open>
  \<open>this.usedSelectors[this.usedSelectors.length - 1]\<close> is \<open>undefined\<close> on the empty
  array; \<open>None\<close> stands for \<open>undefined\<close>. An \<open>undefined\<close> is never \<open>===\<close> to a string,
  and \<open>order.indexOf(undefined)\<close> searches an array of strings for it.
\<close>

definition lastUsed :: "SelectorBuilder \<Rightarrow> string option" where
  "lastUsed this =
     (if usedSelectors this = [] then None else Some (last (usedSelectors this)))"

definition process :: "string \<Rightarrow> SelectorBuilder \<Rightarrow> unit completion \<times> SelectorBuilder" where
  "process selector this =
     (if lastUsed this = Some selector \<and> List.member oneTimeSelectors selector
      then (Throw (Error error1), this)
      else if indexOf (map Some order) (lastUsed this) > indexOf (map Some order) (Some selector)
      then (Throw (Error error2), this)
      else (Normal (), this\<lparr>usedSelectors := usedSelectors this @ [selector]\<rparr>))"

text \<open>
  Each fragment method runs \<open>this.process(tag)\<close> first; when that throws, the method is
  left at once with the object as \<open>process\<close> left it, otherwise the rendered text is
  added to \<open>this.str\<close> and \<open>this\<close> is returned.
\<close>

definition element :: "string \<Rightarrow> SelectorBuilder \<Rightarrow> unit completion \<times> SelectorBuilder" where
  "element val this =
     (case process ''el'' this of
        (Throw e, this') \<Rightarrow> (Throw e, this')
      | (Normal _, this') \<Rightarrow> (Normal (), this'\<lparr>str := str this' @ val\<rparr>))"

definition id' :: "string \<Rightarrow> SelectorBuilder \<Rightarrow> unit completion \<times> SelectorBuilder" where
  "id' val this =
     (case process ''id'' this of
        (Throw e, this') \<Rightarrow> (Throw e, this')
      | (Normal _, this') \<Rightarrow> (Normal (), this'\<lparr>str := str this' @ ''#'' @ val\<rparr>))"

definition class' :: "string \<Rightarrow> SelectorBuilder \<Rightarrow> unit completion \<times> SelectorBuilder" where
  "class' val this =
     (case process ''class'' this of
        (Throw e, this') \<Rightarrow> (Throw e, this')
      | (Normal _, this') \<Rightarrow> (Normal (), this'\<lparr>str := str this' @ ''.'' @ val\<rparr>))"

definition attr :: "string \<Rightarrow> SelectorBuilder \<Rightarrow> unit completion \<times> SelectorBuilder" where
  "attr val this =
     (case process ''attr'' this of
        (Throw e, this') \<Rightarrow> (Throw e, this')
      | (Normal _, this') \<Rightarrow> (Normal (), this'\<lparr>str := str this' @ ''['' @ val @ '']''\<rparr>))"

definition pseudoClass :: "string \<Rightarrow> SelectorBuilder \<Rightarrow> unit completion \<times> SelectorBuilder" where
  "pseudoClass val this =
     (case process ''pseudoClass'' this of
        (Throw e, this') \<Rightarrow> (Throw e, this')
      | (Normal _, this') \<Rightarrow> (Normal (), this'\<lparr>str := str this' @ '':'' @ val\<rparr>))"

definition pseudoElement :: "string \<Rightarrow> SelectorBuilder \<Rightarrow> unit completion \<times> SelectorBuilder" where
  "pseudoElement val this =
     (case process ''pseudoEl'' this of
        (Throw e, this') \<Rightarrow> (Throw e, this')
      | (Normal _, this') \<Rightarrow> (Normal (), this'\<lparr>str := str this' @ ''::'' @ val\<rparr>))"

definition stringify :: "SelectorBuilder \<Rightarrow> string" where
  "stringify this = str this"

subsection \<open>Fluent chains on one builder\<close>

text \<open>
  A fragment append is a call of one of the six methods with a value. A chain
  \<open>b.m1(v1).m2(v2)...\<close> runs the calls from left to right on the same object and stops
  at the first throw.
\<close>

datatype fragment =
  Element string | Id string | Class string | Attr string
  | PseudoClass string | PseudoElement string

fun call :: "fragment \<Rightarrow> SelectorBuilder \<Rightarrow> unit completion \<times> SelectorBuilder" where
  "call (Element v) this = element v this"
| "call (Id v) this = id' v this"
| "call (Class v) this = class' v this"
| "call (Attr v) this = attr v this"
| "call (PseudoClass v) this = pseudoClass v this"
| "call (PseudoElement v) this = pseudoElement v this"

fun chain :: "fragment list \<Rightarrow> SelectorBuilder \<Rightarrow> unit completion \<times> SelectorBuilder" where
  "chain [] this = (Normal (), this)"
| "chain (f # fs) this =
     (case call f this of
        (Throw e, this') \<Rightarrow> (Throw e, this')
      | (Normal _, this') \<Rightarrow> chain fs this')"

text \<open>The tag under which a method records its fragment: the one it hands to \<open>process\<close>.\<close>

fun tag :: "fragment \<Rightarrow> string" where
  "tag (Element v) = ''el''"
| "tag (Id v) = ''id''"
| "tag (Class v) = ''class''"
| "tag (Attr v) = ''attr''"
| "tag (PseudoClass v) = ''pseudoClass''"
| "tag (PseudoElement v) = ''pseudoEl''"

subsection \<open>Objects, references and the facade cssSelectorBuilder\<close>

text \<open>
  Selectors are objects handled by reference, and \<open>combine\<close> writes to \<open>this\<close>, which
  is the facade object \<open>cssSelectorBuilder\<close> itself when \<open>combine\<close> is called as its
  method. So the model keeps a store: the \<open>SelectorBuilder\<close> instances created so
  far, addressed by their position, and the \<open>str\<close> property of the facade object, which
  does not exist (\<open>None\<close>, read as \<open>undefined\<close>) until \<open>combine\<close> assigns it.
\<close>

datatype selref = Facade | Instance nat

record world =
  instances :: "SelectorBuilder list"
  facadeStr :: "string option"

definition world0 :: world where
  "world0 = \<lparr>instances = [], facadeStr = None\<rparr>"

text \<open>\<open>new SelectorBuilder()\<close> allocates a fresh object and runs the constructor.\<close>

definition new_SelectorBuilder :: "world \<Rightarrow> nat \<times> world" where
  "new_SelectorBuilder w =
     (length (instances w), w\<lparr>instances := instances w @ [constructor]\<rparr>)"

text \<open>
  A method call on the instance at address \<open>r\<close>: the method works on that object in
  place and, when it returns, returns \<open>this\<close>, the same reference.
\<close>

definition invoke ::
  "(SelectorBuilder \<Rightarrow> unit completion \<times> SelectorBuilder) \<Rightarrow> nat \<Rightarrow> world
     \<Rightarrow> selref completion \<times> world" where
  "invoke method r w =
     (if r < length (instances w) then
        (case method (instances w ! r) of
           (Throw e, this') \<Rightarrow> (Throw e, w\<lparr>instances := (instances w)[r := this']\<rparr>)
         | (Normal _, this') \<Rightarrow>
             (Normal (Instance r), w\<lparr>instances := (instances w)[r := this']\<rparr>))
      else (Throw TypeError, w))"

definition cssSelectorBuilder_element :: "string \<Rightarrow> world \<Rightarrow> selref completion \<times> world" where
  "cssSelectorBuilder_element val w =
     (case new_SelectorBuilder w of (r, w') \<Rightarrow> invoke (element val) r w')"

definition cssSelectorBuilder_id :: "string \<Rightarrow> world \<Rightarrow> selref completion \<times> world" where
  "cssSelectorBuilder_id val w =
     (case new_SelectorBuilder w of (r, w') \<Rightarrow> invoke (id' val) r w')"

definition cssSelectorBuilder_class :: "string \<Rightarrow> world \<Rightarrow> selref completion \<times> world" where
  "cssSelectorBuilder_class val w =
     (case new_SelectorBuilder w of (r, w') \<Rightarrow> invoke (class' val) r w')"

definition cssSelectorBuilder_attr :: "string \<Rightarrow> world \<Rightarrow> selref completion \<times> world" where
  "cssSelectorBuilder_attr val w =
     (case new_SelectorBuilder w of (r, w') \<Rightarrow> invoke (attr val) r w')"

definition cssSelectorBuilder_pseudoClass :: "string \<Rightarrow> world \<Rightarrow> selref completion \<times> world" where
  "cssSelectorBuilder_pseudoClass val w =
     (case new_SelectorBuilder w of (r, w') \<Rightarrow> invoke (pseudoClass val) r w')"

definition cssSelectorBuilder_pseudoElement :: "string \<Rightarrow> world \<Rightarrow> selref completion \<times> world" where
  "cssSelectorBuilder_pseudoElement val w =
     (case new_SelectorBuilder w of (r, w') \<Rightarrow> invoke (pseudoElement val) r w')"

text \<open>
  \<open>sel.str\<close>: the property read that \<open>combine\<close> performs on its arguments, and the
  conversion a template literal applies to the value read.
\<close>

definition read_str :: "selref \<Rightarrow> world \<Rightarrow> string option completion" where
  "read_str sel w =
     (case sel of
        Facade \<Rightarrow> Normal (facadeStr w)
      | Instance r \<Rightarrow>
          (if r < length (instances w) then Normal (Some (str (instances w ! r)))
           else Throw TypeError))"

definition template :: "string option \<Rightarrow> string" where
  "template v = (case v of None \<Rightarrow> ''undefined'' | Some s \<Rightarrow> s)"

definition cssSelectorBuilder_combine ::
  "selref \<Rightarrow> string \<Rightarrow> selref \<Rightarrow> world \<Rightarrow> selref completion \<times> world" where
  "cssSelectorBuilder_combine sel1 combin sel2 w =
     (case read_str sel1 w of
        Throw e \<Rightarrow> (Throw e, w)
      | Normal s1 \<Rightarrow>
          (case read_str sel2 w of
             Throw e \<Rightarrow> (Throw e, w)
           | Normal s2 \<Rightarrow>
               (Normal Facade,
                w\<lparr>facadeStr := Some (template s1 @ '' '' @ combin @ '' '' @ template s2)\<rparr>)))"

definition cssSelectorBuilder_stringify :: "world \<Rightarrow> string option" where
  "cssSelectorBuilder_stringify w = facadeStr w"

text \<open>
  Calls through a reference. \<open>sel.stringify()\<close> and \<open>sel.element(v)\<close>, \<open>sel.id(v)\<close>, ...
  run the method of the object \<open>sel\<close> refers to: that of the facade when \<open>sel\<close> is the
  facade, that of the class when it is an instance.
\<close>

fun facade :: "fragment \<Rightarrow> world \<Rightarrow> selref completion \<times> world" where
  "facade (Element v) w = cssSelectorBuilder_element v w"
| "facade (Id v) w = cssSelectorBuilder_id v w"
| "facade (Class v) w = cssSelectorBuilder_class v w"
| "facade (Attr v) w = cssSelectorBuilder_attr v w"
| "facade (PseudoClass v) w = cssSelectorBuilder_pseudoClass v w"
| "facade (PseudoElement v) w = cssSelectorBuilder_pseudoElement v w"

definition send :: "fragment \<Rightarrow> selref \<Rightarrow> world \<Rightarrow> selref completion \<times> world" where
  "send f sel w = (case sel of Facade \<Rightarrow> facade f w | Instance r \<Rightarrow> invoke (call f) r w)"

definition send_stringify :: "selref \<Rightarrow> world \<Rightarrow> string option completion" where
  "send_stringify sel w =
     (case sel of
        Facade \<Rightarrow> Normal (cssSelectorBuilder_stringify w)
      | Instance r \<Rightarrow>
          (if r < length (instances w) then Normal (Some (stringify (instances w ! r)))
           else Throw TypeError))"

text \<open>Sequencing: the next call runs on the value and the store the previous one left.\<close>

definition and_then ::
  "'a completion \<times> world \<Rightarrow> ('a \<Rightarrow> world \<Rightarrow> 'b completion \<times> world) \<Rightarrow> 'b completion \<times> world" where
  "and_then m k = (case m of (Throw e, w) \<Rightarrow> (Throw e, w) | (Normal x, w) \<Rightarrow> k x w)"

subsection \<open>The vocabulary of the specification\<close>

text \<open>
  The rendered form of a fragment as the specification words it: \<open>element(v)\<close> renders
  as \<open>v\<close>, \<open>id(v)\<close> as \<open>#v\<close>, \<open>class(v)\<close> as \<open>.v\<close>, \<open>attr(v)\<close> as \<open>[v]\<close>,
  \<open>pseudoClass(v)\<close> as \<open>:v\<close>, \<open>pseudoElement(v)\<close> as \<open>::v\<close>.
\<close>

fun spec_rendered :: "fragment \<Rightarrow> string" where
  "spec_rendered (Element v) = v"
| "spec_rendered (Id v) = CHR ''#'' # v"
| "spec_rendered (Class v) = CHR ''.'' # v"
| "spec_rendered (Attr v) = CHR ''['' # v @ [CHR '']'']"
| "spec_rendered (PseudoClass v) = CHR '':'' # v"
| "spec_rendered (PseudoElement v) = CHR '':'' # CHR '':'' # v"

text \<open>
  The rank of a kind is its position in \<open>order\<close>; the singleton kinds are those of
  \<open>oneTimeSelectors\<close>. A sequence of kinds satisfies the validation rules when, for
  every two neighbours, the rank does not decrease and they are not the same singleton
  kind.
\<close>

definition rank :: "string \<Rightarrow> int" where
  "rank k = indexOf order k"

definition singleton :: "string \<Rightarrow> bool" where
  "singleton k = List.member oneTimeSelectors k"

definition may_follow :: "string \<Rightarrow> string \<Rightarrow> bool" where
  "may_follow a b = (rank a \<le> rank b \<and> \<not> (a = b \<and> singleton a))"

definition spec_valid :: "string list \<Rightarrow> bool" where
  "spec_valid ks = successively may_follow ks"

text \<open>
  What the two checks of \<open>process\<close> maintain on the recorded kinds: ranks never
  decrease, every recorded kind is one of \<open>order\<close>, and a singleton kind is recorded at
  most once.
\<close>

definition history_ok :: "string list \<Rightarrow> bool" where
  "history_ok ks =
     (sorted (map rank ks) \<and> list_all (List.member order) ks \<and>
      list_all (\<lambda>k. count_list ks k \<le> 1) oneTimeSelectors)"

text \<open>\<open>m.stringify()\<close> on the selector an expression \<open>m\<close> evaluates to.\<close>

definition then_stringify :: "selref completion \<times> world \<Rightarrow> string option completion" where
  "then_stringify m = (case m of (Throw e, w) \<Rightarrow> Throw e | (Normal sel, w) \<Rightarrow> send_stringify sel w)"

section \<open>Rectangle\<close>

text \<open>
  \<open>new Rectangle(width, height)\<close> stores the two arguments and an arrow function
  \<open>getArea\<close> that closes over the object itself, not over the two values: each call reads
  the fields the object has at that moment. So \<open>getArea\<close> is a function of the current
  object. JavaScript numbers are doubles; the number type and its multiplication are left
  open here, and the examples are over integers, which doubles hold exactly in this range.
\<close>

record 'n rectangle =
  width :: 'n
  height :: 'n

definition Rectangle :: "'n \<Rightarrow> 'n \<Rightarrow> 'n rectangle" where
  "Rectangle w h = \<lparr>width = w, height = h\<rparr>"

definition getArea :: "('n::times) rectangle \<Rightarrow> 'n" where
  "getArea this = width this * height this"

section \<open>getJSON and fromJSON\<close>

text \<open>
  Modelled from the spec: \<open>JSON.stringify\<close>, \<open>JSON.parse\<close> and \<open>Object.setPrototypeOf\<close>,
  which \<open>getJSON\<close> and \<open>fromJSON\<close> call, are built-ins of the JavaScript runtime and are
  not in the source. The specification calls them the standard structural serialization,
  parsing and prototype attachment; the definitions below follow the ECMAScript
  description of these operations.

  A call of them returns, throws, or lies outside what is modelled (\<open>Unmodelled\<close>): numbers
  are the integers and the three non-finite values, so a number literal with a fraction
  or an exponent, an integer beyond \<open>2^53 - 1\<close> and the literal \<open>-0\<close> are not given a
  value; strings are sequences of code units below 256, so a \<open>\u\<close> escape above that is
  not; and an object is the list of its own properties in creation order, which is the
  order JavaScript enumerates them in unless a key is an array index, so a key made of
  digits only is not given a place.
\<close>

datatype 'a outcome = Returns 'a | Throws error | Unmodelled

datatype number = Integer int | NaN | Infinity | NegInfinity

datatype jsval =
  JUndefined | JFunction | JNull | JBool bool | JNum number | JStr string
  | JArr "jsval list" | JObj "(string \<times> jsval) list"


subsection \<open>JSON.stringify\<close>










subsection \<open>JSON.parse\<close>

text \<open>
  White space is space, tab, line feed and carriage return. A number is an optional minus
  sign, then \<open>0\<close> or a digit string that does not start with \<open>0\<close>; a string runs to the
  closing quote, holds no code unit below \<open>0x20\<close>, and may hold the escapes \<open>\"\<close>, \<open>\\\<close>,
  \<open>\/\<close>, \<open>\b\<close>, \<open>\f\<close>, \<open>\n\<close>, \<open>\r\<close>, \<open>\t\<close> and \<open>\u\<close> with four hexadecimal digits.
\<close>

definition is_ws :: "char \<Rightarrow> bool" where
  "is_ws c = (c = CHR 0x20 \<or> c = CHR 0x09 \<or> c = CHR 0x0A \<or> c = CHR 0x0D)"

fun skip_ws :: "string \<Rightarrow> string" where
  "skip_ws [] = []"
| "skip_ws (c # cs) = (if is_ws c then skip_ws cs else c # cs)"

definition is_digit :: "char \<Rightarrow> bool" where
  "is_digit c = (48 \<le> (of_char c :: nat) \<and> (of_char c :: nat) \<le> 57)"













subsection \<open>The two functions of the source\<close>


datatype decoded = Primitive jsval | Linked jsval nat





text \<open>
  Modelled from the spec: a method call \<open>obj.name()\<close> on a decoded object. An own field
  of that name hides the prototype's method and, being data, cannot be called; otherwise
  the method is looked up in the prototype object the decoded object refers to, in the
  store of prototype objects as it is at the call, and runs with the decoded object as
  \<open>this\<close>.
\<close>

definition call_method ::
  "(nat \<Rightarrow> (string \<times> (jsval \<Rightarrow> jsval outcome)) list) \<Rightarrow> decoded \<Rightarrow> string \<Rightarrow> jsval outcome" where
  "call_method protos obj name =
     (case obj of
        Linked (JObj ps) p \<Rightarrow>
          (case map_of ps name of
             Some JFunction \<Rightarrow> Unmodelled
           | Some _ \<Rightarrow> Throws TypeError
           | None \<Rightarrow>
               (case map_of (protos p) name of
                  Some m \<Rightarrow> m (JObj ps)
                | None \<Rightarrow> Throws TypeError))
      | _ \<Rightarrow> Unmodelled)"


subsection \<open>Data that JSON represents\<close>


text \<open>
  What may follow a value inside a text, what a value may start with, and what it means
  that a text is read back as a value, as the elements of an array or as the members of
  an object, whatever the bound and whatever follows.
\<close>

definition delim :: "string \<Rightarrow> bool" where
  "delim rest = (rest = [] \<or> hd rest = CHR '','' \<or> hd rest = CHR '']'' \<or> hd rest = CHR ''}'')"

definition value_start :: "char \<Rightarrow> bool" where
  "value_start c = (c = CHR 0x22 \<or> c = CHR ''['' \<or> c = CHR ''{'' \<or> c = CHR ''-'' \<or> is_digit c
     \<or> c = CHR ''n'' \<or> c = CHR ''t'' \<or> c = CHR ''f'')"





section \<open>Properties of the selector builder\<close>

subsection \<open>indexOf, ranks and the two error messages\<close>

lemma indexOf_from_Some: "indexOf_from i (map Some xs) (Some k) = indexOf_from i xs k"
  by (induction xs arbitrary: i) auto

lemma indexOf_from_None: "indexOf_from i (map Some xs) None = -1"
  by (induction xs arbitrary: i) auto

lemma indexOf_from_range: "0 \<le> i \<Longrightarrow> -1 \<le> indexOf_from i xs x"
  by (induction xs arbitrary: i) auto

lemma rank_Some: "indexOf (map Some order) (Some k) = rank k"
  by (simp add: rank_def indexOf_def indexOf_from_Some)

lemma rank_None: "indexOf (map Some order) None = -1"
  by (simp add: indexOf_def indexOf_from_None)

lemma rank_lower: "-1 \<le> rank k"
  by (simp add: rank_def indexOf_def indexOf_from_range)

lemma rank_values:
  "rank ''el'' = 0" "rank ''id'' = 1" "rank ''class'' = 2" "rank ''attr'' = 3"
  "rank ''pseudoClass'' = 4" "rank ''pseudoEl'' = 5"
  by (simp_all add: rank_def indexOf_def order_def)

lemma rank_inj: "a \<in> set order \<Longrightarrow> b \<in> set order \<Longrightarrow> rank a = rank b \<Longrightarrow> a = b"
  using rank_values by (auto simp: order_def)

lemma tag_in_order: "tag f \<in> set order"
  by (cases f) (simp_all add: order_def)

lemma errors_differ: "error1 \<noteq> error2"
  by (simp add: error1_def error2_def)

subsection \<open>One append\<close>

text \<open>
  The six methods differ in the tag and in the text only: each is the two checks of
  \<open>process\<close> on the last recorded kind, followed by the two updates.
\<close>

lemma call_unfold:
  "call f this =
     (if lastUsed this = Some (tag f) \<and> singleton (tag f)
      then (Throw (Error error1), this)
      else if (\<exists>l. lastUsed this = Some l \<and> rank (tag f) < rank l)
      then (Throw (Error error2), this)
      else (Normal (), \<lparr>usedSelectors = usedSelectors this @ [tag f],
                         str = str this @ spec_rendered f\<rparr>))"
proof -
  have gt: "(indexOf (map Some order) (Some k) < indexOf (map Some order) (lastUsed this))
            = (\<exists>l. lastUsed this = Some l \<and> rank k < rank l)" for k
  proof (cases "lastUsed this")
    case None
    then show ?thesis using rank_lower [of k] by (simp add: rank_None rank_Some)
  next
    case (Some l)
    then show ?thesis by (simp add: rank_Some)
  qed
  show ?thesis
    by (cases f) (simp_all add: element_def id'_def class'_def attr_def pseudoClass_def
        pseudoElement_def process_def gt singleton_def)
qed

lemma call_throw_unchanged: "fst (call f this) = Throw e \<Longrightarrow> snd (call f this) = this"
  by (simp add: call_unfold split: if_splits)

lemma call_singleton_iff:
  "fst (call f this) = Throw (Error error1) \<longleftrightarrow> lastUsed this = Some (tag f) \<and> singleton (tag f)"
  using errors_differ by (auto simp: call_unfold)

lemma call_order_iff:
  "fst (call f this) = Throw (Error error2)
     \<longleftrightarrow> (\<exists>l. lastUsed this = Some l \<and> rank (tag f) < rank l)"
  using errors_differ by (auto simp: call_unfold)

lemma lastUsed_snoc: "lastUsed \<lparr>usedSelectors = ks @ [k], str = s\<rparr> = Some k"
  by (simp add: lastUsed_def)

subsection \<open>Chains\<close>

lemma chain_valid:
  "spec_valid (case lastUsed this of None \<Rightarrow> map tag fs | Some l \<Rightarrow> l # map tag fs) \<Longrightarrow>
   chain fs this = (Normal (), \<lparr>usedSelectors = usedSelectors this @ map tag fs,
                                 str = str this @ concat (map spec_rendered fs)\<rparr>)"
proof (induction fs arbitrary: this)
  case Nil
  then show ?case by simp
next
  case (Cons f fs)
  let ?this' = "\<lparr>usedSelectors = usedSelectors this @ [tag f],
                  str = str this @ spec_rendered f\<rparr>"
  from Cons.prems have ok: "call f this = (Normal (), ?this')"
    by (auto simp: call_unfold spec_valid_def may_follow_def split: option.splits)
  from Cons.prems have "spec_valid (tag f # map tag fs)"
    by (auto simp: spec_valid_def split: option.splits)
  then have "spec_valid (case lastUsed ?this' of None \<Rightarrow> map tag fs | Some l \<Rightarrow> l # map tag fs)"
    by (simp add: lastUsed_snoc)
  from Cons.IH [OF this] ok show ?case by simp
qed

text \<open>Conversely, a chain on a fresh builder that returns was a valid sequence.\<close>

lemma chain_returns_valid:
  "fst (chain fs this) = Normal () \<Longrightarrow>
   spec_valid (case lastUsed this of None \<Rightarrow> map tag fs | Some l \<Rightarrow> l # map tag fs)"
proof (induction fs arbitrary: this)
  case Nil
  then show ?case by (simp add: spec_valid_def split: option.splits)
next
  case (Cons f fs)
  let ?this' = "\<lparr>usedSelectors = usedSelectors this @ [tag f],
                  str = str this @ spec_rendered f\<rparr>"
  from Cons.prems have ok: "call f this = (Normal (), ?this')"
    by (auto simp: call_unfold split: if_splits)
  with Cons.prems have "fst (chain fs ?this') = Normal ()" by simp
  from Cons.IH [OF this] have rest: "spec_valid (tag f # map tag fs)"
    by (simp add: lastUsed_snoc)
  from ok have "\<not> (lastUsed this = Some (tag f) \<and> singleton (tag f))"
    and "\<not> (\<exists>l. lastUsed this = Some l \<and> rank (tag f) < rank l)"
    by (auto simp: call_unfold split: if_splits)
  with rest show ?case
    by (auto simp: spec_valid_def may_follow_def split: option.splits)
qed

lemma chain_returns_iff:
  "fst (chain fs constructor) = Normal () \<longleftrightarrow> spec_valid (map tag fs)"
  using chain_returns_valid [where this = constructor and fs = fs]
    chain_valid [where this = constructor and fs = fs]
  by (auto simp: constructor_def lastUsed_def)

lemma history_ok_iff:
  "history_ok ks \<longleftrightarrow>
     sorted (map rank ks) \<and> set ks \<subseteq> set order \<and>
     (\<forall>k. singleton k \<longrightarrow> count_list ks k \<le> 1)"
  by (auto simp: history_ok_def singleton_def list_all_iff)

lemma sorted_map_last: "sorted (map g ks) \<Longrightarrow> x \<in> set ks \<Longrightarrow> g x \<le> g (last ks)"
  by (induction ks) (auto split: if_splits)

lemma call_history_ok:
  assumes c: "call f this = (Normal (), this')" and i: "history_ok (usedSelectors this)"
  shows "history_ok (usedSelectors this')"
proof -
  let ?ks = "usedSelectors this" and ?t = "tag f"
  from c have u: "usedSelectors this' = ?ks @ [?t]"
    by (auto simp: call_unfold split: if_splits)
  from c have ns: "\<not> (lastUsed this = Some ?t \<and> singleton ?t)"
    by (auto simp: call_unfold split: if_splits)
  from c have no: "\<not> (\<exists>l. lastUsed this = Some l \<and> rank ?t < rank l)"
    by (auto simp: call_unfold split: if_splits)
  have le: "rank x \<le> rank ?t" if "x \<in> set ?ks" for x
  proof -
    from that have ne: "?ks \<noteq> []" by auto
    then have "lastUsed this = Some (last ?ks)" by (simp add: lastUsed_def)
    with no have "rank (last ?ks) \<le> rank ?t" by auto
    moreover from i that have "rank x \<le> rank (last ?ks)"
      by (simp add: history_ok_iff sorted_map_last)
    ultimately show ?thesis by simp
  qed
  have s: "sorted (map rank (?ks @ [?t]))"
    using i le by (auto simp: history_ok_iff sorted_append)
  have o: "set (?ks @ [?t]) \<subseteq> set order"
    using i tag_in_order by (auto simp: history_ok_iff)
  have cnt: "count_list (?ks @ [?t]) k \<le> 1" if sk: "singleton k" for k
  proof (cases "k = ?t")
    case False
    with i sk show ?thesis by (simp add: history_ok_iff)
  next
    case True
    have "?t \<notin> set ?ks"
    proof
      assume m: "?t \<in> set ?ks"
      then have ne: "?ks \<noteq> []" by auto
      then have lu: "lastUsed this = Some (last ?ks)" by (simp add: lastUsed_def)
      from i m have "rank ?t \<le> rank (last ?ks)"
        by (simp add: history_ok_iff sorted_map_last)
      moreover from ne have "rank (last ?ks) \<le> rank ?t" by (intro le) simp
      ultimately have "rank (last ?ks) = rank ?t" by simp
      moreover from i ne have "last ?ks \<in> set order" by (auto simp: history_ok_iff)
      ultimately have "last ?ks = ?t" using tag_in_order rank_inj by blast
      with lu ns sk True show False by simp
    qed
    then have "count_list ?ks ?t = 0" by (simp add: count_list_0_iff)
    with True show ?thesis by simp
  qed
  from s o cnt u show ?thesis by (simp add: history_ok_iff)
qed

lemma chain_history_ok:
  "chain fs this = (Normal (), this') \<Longrightarrow> history_ok (usedSelectors this)
     \<Longrightarrow> history_ok (usedSelectors this')"
proof (induction fs arbitrary: this)
  case Nil
  then show ?case by simp
next
  case (Cons f fs)
  from Cons.prems(1) obtain m
    where m: "call f this = (Normal (), m)" and r: "chain fs m = (Normal (), this')"
    by (auto split: prod.splits completion.splits)
  from call_history_ok [OF m Cons.prems(2)] Cons.IH [OF r] show ?case by simp
qed

subsection \<open>Calls through references\<close>

lemma call_method:
  "call (Element v) = element v" "call (Id v) = id' v" "call (Class v) = class' v"
  "call (Attr v) = attr v" "call (PseudoClass v) = pseudoClass v"
  "call (PseudoElement v) = pseudoElement v"
  by (rule ext, simp)+

lemma invoke_throw_unchanged:
  "fst (invoke (call f) r w) = Throw e \<Longrightarrow> snd (invoke (call f) r w) = w"
proof (cases "r < length (instances w)")
  case False
  then show ?thesis by (simp add: invoke_def)
next
  case True
  assume t: "fst (invoke (call f) r w) = Throw e"
  obtain c b where cb: "call f (instances w ! r) = (c, b)"
    by (cases "call f (instances w ! r)")
  with True t have "c = Throw e" by (cases c) (simp_all add: invoke_def)
  with cb call_throw_unchanged [of f "instances w ! r" e] have "b = instances w ! r" by simp
  with True cb \<open>c = Throw e\<close> show ?thesis by (simp add: invoke_def)
qed

text \<open>A facade entry point allocates a builder, and the append on it goes through.\<close>

lemma facade_fresh:
  "facade f w =
     (Normal (Instance (length (instances w))),
      w\<lparr>instances := instances w @ [\<lparr>usedSelectors = [tag f], str = spec_rendered f\<rparr>]\<rparr>)"
proof -
  have c: "call f constructor = (Normal (), \<lparr>usedSelectors = [tag f], str = spec_rendered f\<rparr>)"
    by (simp add: call_unfold constructor_def lastUsed_def)
  have "facade f w
        = invoke (call f) (length (instances w)) (w\<lparr>instances := instances w @ [constructor]\<rparr>)"
    by (cases f) (simp_all add: call_method cssSelectorBuilder_element_def
        cssSelectorBuilder_id_def cssSelectorBuilder_class_def cssSelectorBuilder_attr_def
        cssSelectorBuilder_pseudoClass_def cssSelectorBuilder_pseudoElement_def
        new_SelectorBuilder_def)
  with c show ?thesis by (simp add: invoke_def)
qed

lemma send_throw_unchanged: "fst (send f sel w) = Throw e \<Longrightarrow> snd (send f sel w) = w"
  by (cases sel) (simp_all add: send_def facade_fresh invoke_throw_unchanged)

lemma send_stringify_read: "send_stringify sel w = read_str sel w"
  by (cases sel) (simp_all add: send_stringify_def read_str_def
      cssSelectorBuilder_stringify_def stringify_def)

text \<open>
  The example of the source's documentation comment, with the arguments evaluated from
  left to right as JavaScript does: each inner \<open>combine\<close> is read by the enclosing one
  before anything overwrites it.
\<close>

lemma documented_nested_combine:
  "then_stringify
     (and_then (and_then (and_then (and_then (cssSelectorBuilder_element ''div'' world0)
         (send (Id ''main''))) (send (Class ''container''))) (send (Class ''draggable'')))
        (\<lambda>S1 w. and_then
           (and_then (and_then (cssSelectorBuilder_element ''table'' w) (send (Id ''data'')))
              (\<lambda>S2 w. and_then
                 (and_then (and_then (cssSelectorBuilder_element ''tr'' w)
                     (send (PseudoClass ''nth-of-type(even)'')))
                    (\<lambda>S3 w. and_then (and_then (cssSelectorBuilder_element ''td'' w)
                        (send (PseudoClass ''nth-of-type(even)'')))
                       (\<lambda>S4. cssSelectorBuilder_combine S3 '' '' S4)))
                 (\<lambda>S5. cssSelectorBuilder_combine S2 ''~'' S5)))
           (\<lambda>S6. cssSelectorBuilder_combine S1 ''+'' S6)))
   = Normal (Some ''div#main.container.draggable + table#data ~ tr:nth-of-type(even)   td:nth-of-type(even)'')"
  by (simp add: facade_fresh [of "Element v" for v, simplified] and_then_def send_def
      invoke_def call_unfold lastUsed_def singleton_def oneTimeSelectors_def rank_values
      world0_def cssSelectorBuilder_combine_def read_str_def template_def then_stringify_def
      send_stringify_def cssSelectorBuilder_stringify_def stringify_def)

section \<open>The properties the specification states\<close>

text \<open>
  C1. For every sequence of fragment appends on one builder that satisfies the validation
  rules (ranks never decrease from one fragment to the next, no singleton kind repeated
  in adjacent positions), every append of the chain returns and \<open>stringify()\<close> is the
  concatenation, in append order and with nothing in between, of the rendered forms of
  the fragments: \<open>v\<close>, \<open>#v\<close>, \<open>.v\<close>, \<open>[v]\<close>, \<open>:v\<close>, \<open>::v\<close>.
\<close>

theorem stringify_concat:
  "spec_valid (map tag fs) \<Longrightarrow>
     fst (chain fs constructor) = Normal ()
     \<and> stringify (snd (chain fs constructor)) = concat (map spec_rendered fs)"
  using chain_valid [where this = constructor and fs = fs]
  by (simp add: constructor_def lastUsed_def stringify_def)

theorem stringify_concat_witness:
  "spec_valid (map tag [Element ''a'', Attr ''href$=\".png\"'', PseudoClass ''focus''])
   \<and> fst (chain [Element ''a'', Attr ''href$=\".png\"'', PseudoClass ''focus''] constructor)
       = Normal ()
   \<and> stringify (snd (chain [Element ''a'', Attr ''href$=\".png\"'', PseudoClass ''focus'']
         constructor)) = ''a[href$=\".png\"]:focus''"
proof -
  have v: "spec_valid (map tag [Element ''a'', Attr ''href$=\".png\"'', PseudoClass ''focus''])"
    by (simp add: spec_valid_def may_follow_def rank_values)
  from v stringify_concat [OF v] show ?thesis by simp
qed

text \<open>
  C4. On a builder on which every append so far has returned, the recorded kinds are in
  non-decreasing rank order (the ranks being 0 to 5 along element, id, class, attribute,
  pseudo-class, pseudo-element) and no singleton kind (element, id, pseudo-element) is
  recorded twice, adjacent or not.
\<close>

theorem recorded_kinds_invariant:
  "chain fs constructor = (Normal (), b) \<Longrightarrow>
     sorted (map rank (usedSelectors b))
     \<and> (\<forall>k. singleton k \<longrightarrow> count_list (usedSelectors b) k \<le> 1)
     \<and> map rank order = [0, 1, 2, 3, 4, 5]
     \<and> filter singleton order = oneTimeSelectors"
proof -
  assume c: "chain fs constructor = (Normal (), b)"
  have "history_ok (usedSelectors constructor)"
    by (simp add: history_ok_iff constructor_def)
  from chain_history_ok [OF c this] have "history_ok (usedSelectors b)" .
  moreover have "map rank order = [0, 1, 2, 3, 4, 5]"
    using rank_values by (simp add: order_def)
  moreover have "filter singleton order = oneTimeSelectors"
    by (simp add: order_def singleton_def oneTimeSelectors_def)
  ultimately show ?thesis by (simp add: history_ok_iff)
qed

theorem recorded_kinds_invariant_witness:
  "chain [Element ''div'', Id ''main'', Class ''container'', Class ''draggable''] constructor
     = (Normal (), \<lparr>usedSelectors = [''el'', ''id'', ''class'', ''class''],
                    str = ''div#main.container.draggable''\<rparr>)
   \<and> sorted (map rank [''el'', ''id'', ''class'', ''class''])
   \<and> singleton ''el'' \<and> count_list [''el'', ''id'', ''class'', ''class''] ''el'' \<le> 1
   \<and> singleton ''id'' \<and> count_list [''el'', ''id'', ''class'', ''class''] ''id'' \<le> 1"
proof -
  have c: "chain [Element ''div'', Id ''main'', Class ''container'', Class ''draggable'']
             constructor
     = (Normal (), \<lparr>usedSelectors = [''el'', ''id'', ''class'', ''class''],
                    str = ''div#main.container.draggable''\<rparr>)"
    by (simp add: call_unfold constructor_def lastUsed_def singleton_def oneTimeSelectors_def
        rank_values)
  have s: "singleton ''el''" "singleton ''id''"
    by (simp_all add: singleton_def oneTimeSelectors_def)
  from c s recorded_kinds_invariant [OF c] show ?thesis by simp
qed

text \<open>
  C9. An append that throws changes nothing: the builder, and so its string and its
  recorded kinds, are as before the call, on the object and through a reference to it.
\<close>

theorem append_atomic_on_throw:
  "(fst (call f this) = Throw e \<longrightarrow>
      snd (call f this) = this \<and> stringify (snd (call f this)) = stringify this
      \<and> usedSelectors (snd (call f this)) = usedSelectors this)
   \<and> (fst (send g sel w) = Throw e' \<longrightarrow>
      snd (send g sel w) = w \<and> send_stringify sel (snd (send g sel w)) = send_stringify sel w)"
  by (simp add: call_throw_unchanged send_throw_unchanged)

theorem append_atomic_on_throw_witness:
  "fst (call (Id ''b'') \<lparr>usedSelectors = [''id''], str = ''#a''\<rparr>) = Throw (Error error1)
   \<and> snd (call (Id ''b'') \<lparr>usedSelectors = [''id''], str = ''#a''\<rparr>)
       = \<lparr>usedSelectors = [''id''], str = ''#a''\<rparr>
   \<and> fst (send (Element ''p'') (Instance 0)
         \<lparr>instances = [\<lparr>usedSelectors = [''id''], str = ''#a''\<rparr>], facadeStr = None\<rparr>)
       = Throw (Error error2)
   \<and> snd (send (Element ''p'') (Instance 0)
         \<lparr>instances = [\<lparr>usedSelectors = [''id''], str = ''#a''\<rparr>], facadeStr = None\<rparr>)
       = \<lparr>instances = [\<lparr>usedSelectors = [''id''], str = ''#a''\<rparr>], facadeStr = None\<rparr>"
proof -
  let ?b = "\<lparr>usedSelectors = [''id''], str = ''#a''\<rparr>"
  let ?w = "\<lparr>instances = [?b], facadeStr = None\<rparr>"
  have t: "fst (call (Id ''b'') ?b) = Throw (Error error1)"
    by (simp add: id'_def process_def lastUsed_def oneTimeSelectors_def)
  have t2: "fst (send (Element ''p'') (Instance 0) ?w) = Throw (Error error2)"
    by (simp add: send_def invoke_def element_def process_def lastUsed_def
        oneTimeSelectors_def order_def indexOf_def)
  from t t2 append_atomic_on_throw [of "Id ''b''" ?b "Error error1" "Element ''p''"
      "Instance 0" ?w "Error error2"]
  show ?thesis by simp
qed

text \<open>
  C10. The first append on a freshly constructed builder never throws, whatever the kind
  and the value; so every facade entry point returns, with a reference to the builder it
  has just created.
\<close>

theorem first_append_never_throws:
  "fst (call f constructor) = Normal ()
   \<and> fst (facade f w) = Normal (Instance (length (instances w)))"
  by (simp add: facade_fresh call_unfold constructor_def lastUsed_def)

theorem first_append_never_throws_witness:
  "fst (call (PseudoElement ''first-line'') constructor) = Normal ()
   \<and> fst (facade (PseudoElement ''first-line'') world0) = Normal (Instance 0)"
  using first_append_never_throws [of "PseudoElement ''first-line''" world0]
  by (simp add: world0_def)

text \<open>
  C3, as the claim words it, does not hold of the code. Appending \<open>id\<close>, \<open>class\<close>, \<open>id\<close>
  does throw: the third append is stopped by the ordering check, since \<open>class\<close> ranks
  above \<open>id\<close>. And the message the singleton check throws with is the text of \<open>error1\<close>,
  not the shorter wording of the claim.
\<close>

theorem singleton_error_counterexample:
  "fst (chain [Id ''a'', Class ''b'', Id ''c''] constructor)
     = Throw (Error ''Selector parts should be arranged in the following order: element, id, class, attribute, pseudo-class, pseudo-element'')
   \<and> fst (chain [Id ''a'', Id ''b''] constructor)
     \<noteq> Throw (Error ''element, id and pseudo-element should not occur more than once'')"
  by (simp add: call_unfold constructor_def lastUsed_def singleton_def oneTimeSelectors_def
        rank_values error1_def error2_def)

text \<open>
  C3, amended. An append throws the singleton error exactly when its kind equals the kind
  recorded last and is a singleton kind (element, id, pseudo-element); the error carries
  the message of \<open>error1\<close>, "Element, id and pseudo-element should not occur more then one
  time inside the selector". Appending \<open>id\<close> twice in a row throws it; appending \<open>id\<close>,
  \<open>class\<close>, \<open>id\<close> does not throw the singleton error but throws the ordering error.
\<close>

theorem singleton_error_iff:
  "(fst (call f this) = Throw (Error error1)
      \<longleftrightarrow> lastUsed this = Some (tag f) \<and> singleton (tag f))
   \<and> (singleton (tag f) \<longleftrightarrow> (\<exists>v. f = Element v \<or> f = Id v \<or> f = PseudoElement v))
   \<and> error1 = ''Element, id and pseudo-element should not occur more then one time inside the selector''
   \<and> fst (chain [Id u, Id v] constructor) = Throw (Error error1)
   \<and> fst (chain [Id u, Class v, Id x] constructor) = Throw (Error error2)"
proof -
  have a: "fst (call f this) = Throw (Error error1)
             \<longleftrightarrow> lastUsed this = Some (tag f) \<and> singleton (tag f)"
    by (rule call_singleton_iff)
  have b: "singleton (tag f) \<longleftrightarrow> (\<exists>v. f = Element v \<or> f = Id v \<or> f = PseudoElement v)"
    by (cases f) (simp_all add: singleton_def oneTimeSelectors_def)
  have m: "error1 = ''Element, id and pseudo-element should not occur more then one time inside the selector''"
    by (simp add: error1_def)
  have c: "fst (chain [Id u, Id v] constructor) = Throw (Error error1)"
    by (simp add: call_unfold constructor_def lastUsed_def singleton_def oneTimeSelectors_def)
  have d: "fst (chain [Id u, Class v, Id x] constructor) = Throw (Error error2)"
    by (simp add: call_unfold constructor_def lastUsed_def singleton_def oneTimeSelectors_def
        rank_values)
  show ?thesis by (intro conjI) (rule a b m c d)+
qed

theorem singleton_error_iff_witness:
  "lastUsed \<lparr>usedSelectors = [''id''], str = ''#a''\<rparr> = Some (tag (Id ''b''))
   \<and> singleton (tag (Id ''b''))
   \<and> fst (call (Id ''b'') \<lparr>usedSelectors = [''id''], str = ''#a''\<rparr>) = Throw (Error error1)"
proof -
  let ?b = "\<lparr>usedSelectors = [''id''], str = ''#a''\<rparr>"
  have h: "lastUsed ?b = Some (tag (Id ''b'')) \<and> singleton (tag (Id ''b''))"
    by (simp add: lastUsed_def singleton_def oneTimeSelectors_def)
  with singleton_error_iff [of "Id ''b''" ?b] show ?thesis by blast
qed

text \<open>
  C5, as the claim words it, does not hold of the code: appending \<open>class\<close> then \<open>element\<close>
  throws, but with the text of \<open>error2\<close> as its message, not with the wording of the
  claim.
\<close>

theorem order_error_counterexample:
  "fst (chain [Class ''a'', Element ''b''] constructor)
     = Throw (Error ''Selector parts should be arranged in the following order: element, id, class, attribute, pseudo-class, pseudo-element'')
   \<and> fst (chain [Class ''a'', Element ''b''] constructor)
     \<noteq> Throw (Error ''selector parts must follow order: element, id, class, attribute, pseudo-class, pseudo-element'')"
  by (simp add: call_unfold constructor_def lastUsed_def singleton_def oneTimeSelectors_def
        rank_values error2_def)

text \<open>
  C5, amended. An append throws the ordering error exactly when a kind has been recorded
  before and the rank of the kind recorded last is strictly greater than the rank of the
  kind being appended; the error carries the message of \<open>error2\<close>, "Selector parts should
  be arranged in the following order: element, id, class, attribute, pseudo-class,
  pseudo-element". Appending \<open>class\<close> then \<open>element\<close> throws it.
\<close>

theorem order_error_iff:
  "(fst (call f this) = Throw (Error error2)
      \<longleftrightarrow> (\<exists>l. lastUsed this = Some l \<and> rank (tag f) < rank l))
   \<and> error2 = ''Selector parts should be arranged in the following order: element, id, class, attribute, pseudo-class, pseudo-element''
   \<and> fst (chain [Class u, Element v] constructor) = Throw (Error error2)"
proof -
  have a: "fst (call f this) = Throw (Error error2)
             \<longleftrightarrow> (\<exists>l. lastUsed this = Some l \<and> rank (tag f) < rank l)"
    by (rule call_order_iff)
  have m: "error2 = ''Selector parts should be arranged in the following order: element, id, class, attribute, pseudo-class, pseudo-element''"
    by (simp add: error2_def)
  have c: "fst (chain [Class u, Element v] constructor) = Throw (Error error2)"
    by (simp add: call_unfold constructor_def lastUsed_def singleton_def oneTimeSelectors_def
        rank_values)
  show ?thesis by (intro conjI) (rule a m c)+
qed

theorem order_error_iff_witness:
  "lastUsed \<lparr>usedSelectors = [''class''], str = ''.a''\<rparr> = Some ''class''
   \<and> rank (tag (Element ''p'')) < rank ''class''
   \<and> fst (call (Element ''p'') \<lparr>usedSelectors = [''class''], str = ''.a''\<rparr>)
       = Throw (Error error2)"
proof -
  let ?b = "\<lparr>usedSelectors = [''class''], str = ''.a''\<rparr>"
  have h: "lastUsed ?b = Some ''class'' \<and> rank (tag (Element ''p'')) < rank ''class''"
    by (simp add: lastUsed_def rank_values)
  with order_error_iff [of "Element ''p''" ?b] show ?thesis by blast
qed

text \<open>
  C2. For selectors \<open>A\<close> and \<open>B\<close> whose \<open>stringify()\<close> gives the strings \<open>a\<close> and \<open>b\<close> when
  \<open>combine\<close> is called, and any string \<open>c\<close>, \<open>combine(A, c, B)\<close> returns a selector whose
  \<open>stringify()\<close> is \<open>a\<close>, a space, \<open>c\<close> as it is, a space, \<open>b\<close>. In particular
  \<open>combine(element('div').id('main'), '+', element('table').id('data')).stringify()\<close> is
  \<open>'div#main + table#data'\<close>.
\<close>

theorem combine_renders:
  "(send_stringify A w = Normal (Some a) \<longrightarrow> send_stringify B w = Normal (Some b) \<longrightarrow>
      fst (cssSelectorBuilder_combine A c B w) = Normal Facade
      \<and> then_stringify (cssSelectorBuilder_combine A c B w)
          = Normal (Some (a @ '' '' @ c @ '' '' @ b)))
   \<and> then_stringify
       (and_then (and_then (cssSelectorBuilder_element ''div'' world0) (send (Id ''main'')))
          (\<lambda>A w1. and_then
             (and_then (cssSelectorBuilder_element ''table'' w1) (send (Id ''data'')))
             (\<lambda>B. cssSelectorBuilder_combine A ''+'' B)))
       = Normal (Some ''div#main + table#data'')"
proof -
  have ex: "then_stringify
       (and_then (and_then (cssSelectorBuilder_element ''div'' world0) (send (Id ''main'')))
          (\<lambda>A w1. and_then
             (and_then (cssSelectorBuilder_element ''table'' w1) (send (Id ''data'')))
             (\<lambda>B. cssSelectorBuilder_combine A ''+'' B)))
       = Normal (Some ''div#main + table#data'')"
    by (simp add: facade_fresh [of "Element v" for v, simplified] and_then_def send_def
        invoke_def call_unfold lastUsed_def singleton_def oneTimeSelectors_def rank_values
        world0_def cssSelectorBuilder_combine_def read_str_def template_def
        then_stringify_def send_stringify_def cssSelectorBuilder_stringify_def)
  show ?thesis
    by (simp add: ex) (simp add: send_stringify_read cssSelectorBuilder_combine_def
        then_stringify_def template_def read_str_def)
qed

theorem combine_renders_witness:
  "send_stringify (Instance 0)
      \<lparr>instances = [\<lparr>usedSelectors = [''el'', ''id''], str = ''div#main''\<rparr>,
                    \<lparr>usedSelectors = [''el'', ''id''], str = ''table#data''\<rparr>],
       facadeStr = None\<rparr> = Normal (Some ''div#main'')
   \<and> send_stringify (Instance 1)
      \<lparr>instances = [\<lparr>usedSelectors = [''el'', ''id''], str = ''div#main''\<rparr>,
                    \<lparr>usedSelectors = [''el'', ''id''], str = ''table#data''\<rparr>],
       facadeStr = None\<rparr> = Normal (Some ''table#data'')
   \<and> then_stringify (cssSelectorBuilder_combine (Instance 0) ''+'' (Instance 1)
      \<lparr>instances = [\<lparr>usedSelectors = [''el'', ''id''], str = ''div#main''\<rparr>,
                    \<lparr>usedSelectors = [''el'', ''id''], str = ''table#data''\<rparr>],
       facadeStr = None\<rparr>) = Normal (Some ''div#main + table#data'')"
proof -
  let ?w = "\<lparr>instances = [\<lparr>usedSelectors = [''el'', ''id''], str = ''div#main''\<rparr>,
                    \<lparr>usedSelectors = [''el'', ''id''], str = ''table#data''\<rparr>],
       facadeStr = None\<rparr>"
  have a: "send_stringify (Instance 0) ?w = Normal (Some ''div#main'')"
    by (simp add: send_stringify_def stringify_def)
  have b: "send_stringify (Instance 1) ?w = Normal (Some ''table#data'')"
    by (simp add: send_stringify_def stringify_def)
  from a b combine_renders [of "Instance 0" ?w "''div#main''" "Instance 1" "''table#data''"
      "''+''"]
  show ?thesis by simp
qed

text \<open>
  C6 says that \<open>combine\<close> produces a new selector object and that a later facade call
  never changes what an earlier result renders. The code returns the facade object itself
  from every \<open>combine\<close> and keeps the combined string on it: after
  \<open>x = combine(element('a'), '+', element('b'))\<close>, for which \<open>x.stringify()\<close> is
  \<open>'a + b'\<close>, the call \<open>combine(element('c'), '~', element('d'))\<close> returns the same object,
  and \<open>x.stringify()\<close> is \<open>'c ~ d'\<close>.
\<close>

theorem combine_overwrites_earlier_selector:
  "let x = and_then (cssSelectorBuilder_element ''a'' world0)
             (\<lambda>A w. and_then (cssSelectorBuilder_element ''b'' w)
                (\<lambda>B. cssSelectorBuilder_combine A ''+'' B));
       y = and_then (cssSelectorBuilder_element ''c'' (snd x))
             (\<lambda>C w. and_then (cssSelectorBuilder_element ''d'' w)
                (\<lambda>D. cssSelectorBuilder_combine C ''~'' D))
   in fst x = Normal Facade \<and> send_stringify Facade (snd x) = Normal (Some ''a + b'')
      \<and> fst y = Normal Facade \<and> send_stringify Facade (snd y) = Normal (Some ''c ~ d'')"
  by (simp add: Let_def facade_fresh [of "Element v" for v, simplified] and_then_def world0_def
      cssSelectorBuilder_combine_def read_str_def template_def
      send_stringify_def cssSelectorBuilder_stringify_def)

text \<open>
  C7. \<open>new Rectangle(width, height)\<close> exposes both fields, and \<open>getArea()\<close> multiplies the
  fields the object has when it is called: \<open>new Rectangle(10, 20).getArea()\<close> is 200, and
  100 once \<open>width\<close> has been set to 5.
\<close>

theorem getArea_lazy:
  "width (Rectangle w h) = w \<and> height (Rectangle w h) = h
   \<and> getArea (Rectangle w h) = w * h
   \<and> getArea ((Rectangle w h)\<lparr>width := w'\<rparr>) = w' * h
   \<and> getArea (Rectangle (10::int) 20) = 200
   \<and> getArea ((Rectangle (10::int) 20)\<lparr>width := 5\<rparr>) = 100"
  by (simp add: Rectangle_def getArea_def)

section \<open>Properties of getJSON and fromJSON\<close>

subsection \<open>Numbers\<close>










subsection \<open>Strings\<close>






subsection \<open>Elements and members\<close>

lemma skip_ws_start: "s \<noteq> [] \<Longrightarrow> \<not> is_ws (hd s) \<Longrightarrow> skip_ws (s @ r) = s @ r"
  by (cases s) simp_all

lemma value_start_not_ws: "value_start c \<Longrightarrow> \<not> is_ws c"
  by (auto simp: value_start_def is_ws_def is_digit_def)

lemma skip_ws_delim: "delim r \<Longrightarrow> skip_ws r = r"
  by (cases r) (auto simp: delim_def is_ws_def)







subsection \<open>Values\<close>











subsection \<open>Every text written for JSON data is read back as the same value\<close>













end
